theory Spec2Isabelle
  imports Complex_Main
begin

section \<open>Path4GMNS, path.py: the query orchestrator and the matrix assembler\<close>

text \<open>
  A shallow embedding of \<^verbatim>\<open>src/path.py\<close>. Python exceptions are values of
  \<open>error\<close>; every function that mutates the network object \<^verbatim>\<open>G\<close> or the module
  global \<^verbatim>\<open>_prev_cost_type\<close> takes the state and returns the new one, also when it
  raises, so that a partial update is visible. A \<^verbatim>\<open>while\<close> loop over predecessor
  pointers need not end (a cyclic predecessor array), so those loops are
  \<^theory_text>\<open>partial_function (option)\<close> and \<open>None\<close> means "does not return".
  Costs are Python floats; they are modelled as \<open>real\<close>, with the arithmetic written as
  in the source and division by zero raising.
\<close>

subsection \<open>Data\<close>

type_synonym node_id = string
type_synonym cost_type = string

datatype error =
    Exception string
  | ValueError string
  | KeyError
  | IndexError
  | ZeroDivisionError
  | UnboundLocalError

record link =
  link_id :: string
  fftt :: real
  link_length :: real
  allowed_uses :: string

record node =
  zone_id :: "string option"

record agent =
  o_node_id :: node_id
  d_node_id :: node_id
  path_cost :: real
  node_path :: "int list option"
  link_path :: "int list option"

record mode =
  mode_type :: string
  mode_ffs :: real
  mode_name :: string

text \<open>
  The forward-star arrays that \<^verbatim>\<open>_optimal_label_correcting_CAPI\<close> hands to the
  engine through the getters of \<^verbatim>\<open>G\<close>. path.py never reads or writes them.
\<close>

record graph_view =
  from_node_no_arr :: "int list"
  to_node_no_arr :: "int list"
  first_links :: "int list"
  last_links :: "int list"
  sorted_link_no_arr :: "int list"
  allowed_uses_arr :: "string list"
  agent_type_name :: string
  last_thru_node :: int

text \<open>
  What the program does to the outside, in the order it does it: a rebuild of the link
  cost array, a call of the compiled engine, a write to a link's free-flow travel time,
  and the export of a finished matrix.
\<close>

datatype event =
    Rebuild cost_type
  | EngineCall int
  | SetFftt nat real
  | Export string string string "real list list"

text \<open>
  The state: the fields of the network object \<^verbatim>\<open>G\<close> that path.py touches, the module
  global \<^verbatim>\<open>_prev_cost_type\<close>, and the event log.
\<close>

record state =
  map_id_to_no :: "node_id \<rightharpoonup> int"
  map_no_to_id :: "int \<rightharpoonup> node_id"
  nodes :: "node list"
  node_size :: int
  links :: "link list"
  link_size :: int
  agents :: "agent list"
  node_label_cost :: "real list"
  node_preds :: "int list"
  link_preds :: "int list"
  link_costs :: "real list"
  view :: graph_view
  length_unit :: string
  prev_cost_type :: cost_type
  trace :: "event list"

type_synonym tree = "real list \<times> int list \<times> int list"

text \<open>
  What path.py uses and the sources do not hold, taken as parameters:
  the constant \<^verbatim>\<open>MAX_LABEL_COST\<close> of \<^verbatim>\<open>consts\<close>; the compiled engine
  \<^verbatim>\<open>shortest_path_n\<close>, a function of the arguments it is called with (origin, node
  count, forward-star arrays, link costs, sentinel, departure time) that fills the three
  tree arrays; the scalar cost a selector derives from a link; the agent set-up of the
  demand collaborator; and the rendering of \<^verbatim>\<open>{path_cost:.4f}\<close>.
\<close>

record 'cp env =
  MAX_LABEL_COST :: real
  shortest_path_n :: "int \<Rightarrow> int \<Rightarrow> graph_view \<Rightarrow> real list \<Rightarrow> real \<Rightarrow> int \<Rightarrow> tree"
  link_cost_of :: "cost_type \<Rightarrow> link \<Rightarrow> real"
  setup_agents :: "'cp \<Rightarrow> state \<Rightarrow> agent list"
  fmt_4f :: "real \<Rightarrow> string"

subsection \<open>Python primitives\<close>

definition py_index :: "'a list \<Rightarrow> int \<Rightarrow> error + 'a" where
  \<comment> \<open>\<^verbatim>\<open>xs[i]\<close>: an index below zero counts from the end, an index outside raises.\<close>
  "py_index xs i =
     (if 0 \<le> i \<and> i < int (length xs) then Inr (xs ! nat i)
      else if i < 0 \<and> - int (length xs) \<le> i then Inr (xs ! nat (int (length xs) + i))
      else Inl IndexError)"

definition py_lookup :: "('k \<rightharpoonup> 'v) \<Rightarrow> 'k \<Rightarrow> error + 'v" where
  \<comment> \<open>\<^verbatim>\<open>d[k]\<close> on a dictionary.\<close>
  "py_lookup d k = (case d k of Some v \<Rightarrow> Inr v | None \<Rightarrow> Inl KeyError)"

definition startswith :: "string \<Rightarrow> string \<Rightarrow> bool" where
  "startswith s p = (take (length p) s = p)"

fun py_join :: "string \<Rightarrow> string list \<Rightarrow> string" where
  "py_join sep [] = []"
| "py_join sep [x] = x"
| "py_join sep (x # y # ys) = x @ sep @ py_join sep (y # ys)"

fun mapM :: "('a \<Rightarrow> error + 'b) \<Rightarrow> 'a list \<Rightarrow> error + 'b list" where
  "mapM f [] = Inr []"
| "mapM f (x # xs) =
     (case f x of
        Inl e \<Rightarrow> Inl e
      | Inr y \<Rightarrow> (case mapM f xs of Inl e \<Rightarrow> Inl e | Inr ys \<Rightarrow> Inr (y # ys)))"

definition not_in_network :: "node_id \<Rightarrow> error" where
  "not_in_network i = Exception (''Node ID: '' @ i @ '' not in the network'')"

subsection \<open>Methods of the network object\<close>

definition allocate_for_CAPI :: "state \<Rightarrow> state" where
  \<comment> \<open>Modelled from the spec: \<^verbatim>\<open>G.allocate_for_CAPI\<close> is missing from the sources. The
      graph view is "built once per network load, costs refreshed on demand"; the state
      of the model holds the view as built, and the call changes nothing.\<close>
  "allocate_for_CAPI s = s"

definition init_link_costs :: "'cp env \<Rightarrow> cost_type \<Rightarrow> state \<Rightarrow> state" where
  \<comment> \<open>Modelled from the spec: \<^verbatim>\<open>G.init_link_costs\<close> is missing from the sources. It
      rebuilds the link cost array for the selector, one derived scalar cost per link.\<close>
  "init_link_costs E ct s =
     s\<lparr>link_costs := map (link_cost_of E ct) (links s), trace := trace s @ [Rebuild ct]\<rparr>"

definition get_node_no :: "state \<Rightarrow> node_id \<Rightarrow> error + int" where
  \<comment> \<open>Modelled from the spec: \<^verbatim>\<open>G.get_node_no\<close> is missing from the sources. It maps the
      external ID to the internal dense index.\<close>
  "get_node_no s i = py_lookup (map_id_to_no s) i"

definition get_path_cost :: "state \<Rightarrow> node_id \<Rightarrow> cost_type \<Rightarrow> error + real" where
  \<comment> \<open>Modelled from the spec: \<^verbatim>\<open>G.get_path_cost\<close> is missing from the sources. It
      reports the per-destination path cost, the label the engine left for the node.\<close>
  "get_path_cost s to_node_id ct =
     (case py_lookup (map_id_to_no s) to_node_id of
        Inl e \<Rightarrow> Inl e
      | Inr no \<Rightarrow> py_index (node_label_cost s) no)"


subsection \<open>The engine call and the selector cache\<close>

text \<open>
  The call of the compiled engine. The getters of \<^verbatim>\<open>G\<close> are read as the fields of the
  state, and the three arrays the engine fills are the ones path.py reads afterwards as
  \<^verbatim>\<open>G.node_label_cost\<close>, \<^verbatim>\<open>G.node_preds\<close> and \<^verbatim>\<open>G.link_preds\<close>; the queue array is
  scratch space of the engine. The departure time is the default, 0.
\<close>

definition optimal_label_correcting_CAPI :: "'cp env \<Rightarrow> state \<Rightarrow> int \<Rightarrow> state" where
  "optimal_label_correcting_CAPI E s origin_node_no =
     (case shortest_path_n E origin_node_no (node_size s) (view s) (link_costs s)
             (MAX_LABEL_COST E) 0 of
        (labels, npreds, lpreds) \<Rightarrow>
          s\<lparr>node_label_cost := labels, node_preds := npreds, link_preds := lpreds,
            trace := trace s @ [EngineCall origin_node_no]\<rparr>)"

definition single_source_shortest_path ::
  "'cp env \<Rightarrow> state \<Rightarrow> node_id \<Rightarrow> cost_type \<Rightarrow> state \<times> (error + unit)" where
  "single_source_shortest_path E s orig_node_id ct =
     (let s1 = allocate_for_CAPI s;
          s2 = (if prev_cost_type s1 \<noteq> ct
                then (init_link_costs E ct s1)\<lparr>prev_cost_type := ct\<rparr>
                else s1)
      in case get_node_no s2 orig_node_id of
           Inl e \<Rightarrow> (s2, Inl e)
         | Inr orig_node_no \<Rightarrow> (optimal_label_correcting_CAPI E s2 orig_node_no, Inr ()))"

subsection \<open>Path reconstruction\<close>

partial_function (option) walk_node_preds ::
  "int list \<Rightarrow> int \<Rightarrow> int list \<Rightarrow> (error + int list) option" where
  "walk_node_preds npreds curr_node_no path =
     (if curr_node_no \<ge> 0 then
        (case py_index npreds curr_node_no of
           Inl e \<Rightarrow> Some (Inl e)
         | Inr nxt \<Rightarrow> walk_node_preds npreds nxt (path @ [curr_node_no]))
      else Some (Inr path))"

partial_function (option) walk_link_preds ::
  "int list \<Rightarrow> int list \<Rightarrow> int \<Rightarrow> int \<Rightarrow> int list \<Rightarrow> (error + int list) option" where
  "walk_link_preds npreds lpreds curr_node_no curr_link_no path =
     (if curr_link_no \<ge> 0 then
        (case py_index npreds curr_node_no of
           Inl e \<Rightarrow> Some (Inl e)
         | Inr n' \<Rightarrow>
            (case py_index lpreds n' of
               Inl e \<Rightarrow> Some (Inl e)
             | Inr l' \<Rightarrow> walk_link_preds npreds lpreds n' l' (path @ [curr_link_no])))
      else Some (Inr path))"

definition output_path_sequence ::
  "state \<Rightarrow> node_id \<Rightarrow> string \<Rightarrow> (error + string list) option" where
  "output_path_sequence s to_node_id ty =
     (case py_lookup (map_id_to_no s) to_node_id of
        Inl e \<Rightarrow> Some (Inl e)
      | Inr curr_node_no \<Rightarrow>
          if startswith ty ''node'' then
            (case walk_node_preds (node_preds s) curr_node_no [] of
               None \<Rightarrow> None
             | Some (Inl e) \<Rightarrow> Some (Inl e)
             | Some (Inr path) \<Rightarrow> Some (mapM (py_lookup (map_no_to_id s)) (rev path)))
          else
            (case py_index (link_preds s) curr_node_no of
               Inl e \<Rightarrow> Some (Inl e)
             | Inr curr_link_no \<Rightarrow>
                (case walk_link_preds (node_preds s) (link_preds s) curr_node_no curr_link_no [] of
                   None \<Rightarrow> None
                 | Some (Inl e) \<Rightarrow> Some (Inl e)
                 | Some (Inr path) \<Rightarrow>
                     Some (mapM (\<lambda>link_no. case py_index (links s) link_no of
                                              Inl e \<Rightarrow> Inl e
                                            | Inr l \<Rightarrow> Inr (link_id l)) (rev path)))))"

definition get_path_sequence_str ::
  "state \<Rightarrow> node_id \<Rightarrow> string \<Rightarrow> (error + string) option" where
  "get_path_sequence_str s to_node_id seq_type =
     (case output_path_sequence s to_node_id seq_type of
        None \<Rightarrow> None
      | Some (Inl e) \<Rightarrow> Some (Inl e)
      | Some (Inr xs) \<Rightarrow> Some (Inr (py_join '';'' xs)))"

subsection \<open>One-to-one queries\<close>

definition find_shortest_path ::
  "'cp env \<Rightarrow> state \<Rightarrow> node_id \<Rightarrow> node_id \<Rightarrow> string \<Rightarrow> cost_type
     \<Rightarrow> (state \<times> (error + string)) option" where
  "find_shortest_path E s from_node_id to_node_id seq_type ct =
     (if map_id_to_no s from_node_id = None then Some (s, Inl (not_in_network from_node_id))
      else if map_id_to_no s to_node_id = None then Some (s, Inl (not_in_network to_node_id))
      else
        (case single_source_shortest_path E s from_node_id ct of
           (s1, Inl e) \<Rightarrow> Some (s1, Inl e)
         | (s1, Inr _) \<Rightarrow>
            (case get_path_cost s1 to_node_id ct of
               Inl e \<Rightarrow> Some (s1, Inl e)
             | Inr c \<Rightarrow>
                 if c \<ge> MAX_LABEL_COST E
                 then Some (s1, Inr (''path '' @ ct @ '': infinity | path: ''))
                 else
                   (case get_path_sequence_str s1 to_node_id seq_type of
                      None \<Rightarrow> None
                    | Some (Inl e) \<Rightarrow> Some (s1, Inl e)
                    | Some (Inr path) \<Rightarrow>
                        (let unit = (if startswith ct ''dis'' then length_unit s1 @ ''s''
                                     else ''minutes'')
                         in if startswith seq_type ''node''
                            then Some (s1, Inr (''path '' @ ct @ '': '' @ fmt_4f E c @ '' '' @ unit
                                                 @ '' | node path: '' @ path))
                            else Some (s1, Inr (''path '' @ ct @ '': '' @ fmt_4f E c @ '' '' @ unit
                                                 @ '' | link path: '' @ path)))))))"

definition get_shortest_path ::
  "'cp env \<Rightarrow> state \<Rightarrow> node_id \<Rightarrow> node_id \<Rightarrow> cost_type \<Rightarrow> state \<times> (error + real)" where
  "get_shortest_path E s from_node_id to_node_id ct =
     (if map_id_to_no s from_node_id = None then (s, Inl (not_in_network from_node_id))
      else if map_id_to_no s to_node_id = None then (s, Inl (not_in_network to_node_id))
      else
        (case single_source_shortest_path E s from_node_id ct of
           (s1, Inl e) \<Rightarrow> (s1, Inl e)
         | (s1, Inr _) \<Rightarrow>
            (case get_path_cost s1 to_node_id ct of
               Inl e \<Rightarrow> (s1, Inl e)
             | Inr c \<Rightarrow> if c \<ge> MAX_LABEL_COST E then (s1, Inr 9999999) else (s1, Inr c))))"

subsection \<open>The shortest-path tree query\<close>

text \<open>
  In the source everything after the call of \<^verbatim>\<open>single_source_shortest_path\<close> stands
  inside a string literal, an expression statement without effect: the function falls
  off its end and returns Python's \<^verbatim>\<open>None\<close>. The result type is an optional
  dictionary, \<open>None\<close> for Python's \<^verbatim>\<open>None\<close>.
\<close>

definition get_shortest_path_tree ::
  "'cp env \<Rightarrow> state \<Rightarrow> node_id \<Rightarrow> string \<Rightarrow> cost_type \<Rightarrow> bool
     \<Rightarrow> state \<times> (error + (node_id \<rightharpoonup> real \<times> string) option)" where
  "get_shortest_path_tree E s from_node_id seq_type ct integer_node_id =
     (if map_id_to_no s from_node_id = None then (s, Inl (not_in_network from_node_id))
      else
        (case single_source_shortest_path E s from_node_id ct of
           (s1, Inl e) \<Rightarrow> (s1, Inl e)
         | (s1, Inr _) \<Rightarrow> (s1, Inr None)))"

subsection \<open>The matrix assembler\<close>

text \<open>
  \<^verbatim>\<open>compute_row_distances\<close> is a list comprehension over the columns and
  \<^verbatim>\<open>create_numpy_matrix_parallel\<close> maps it over the rows with joblib. The model runs
  the rows one after the other in one process, threading the state; progress output and
  timing are left out.
\<close>

fun row_loop ::
  "'cp env \<Rightarrow> state \<Rightarrow> node_id \<Rightarrow> node_id list \<Rightarrow> cost_type \<Rightarrow> state \<times> (error + real list)" where
  "row_loop E s row_node [] ct = (s, Inr [])"
| "row_loop E s row_node (col_node # cols) ct =
     (case get_shortest_path E s row_node col_node ct of
        (s1, Inl e) \<Rightarrow> (s1, Inl e)
      | (s1, Inr v) \<Rightarrow>
         (case row_loop E s1 row_node cols ct of
            (s2, Inl e) \<Rightarrow> (s2, Inl e)
          | (s2, Inr vs) \<Rightarrow> (s2, Inr (v # vs))))"

definition compute_row_distances ::
  "'cp env \<Rightarrow> state \<Rightarrow> node_id \<Rightarrow> node_id list \<Rightarrow> cost_type \<Rightarrow> state \<times> (error + real list)" where
  "compute_row_distances E s row_node row_nodes ct = row_loop E s row_node row_nodes ct"

fun rows_loop ::
  "'cp env \<Rightarrow> state \<Rightarrow> node_id list \<Rightarrow> node_id list \<Rightarrow> cost_type
     \<Rightarrow> state \<times> (error + real list list)" where
  "rows_loop E s [] row_nodes ct = (s, Inr [])"
| "rows_loop E s (row_node # rows) row_nodes ct =
     (case compute_row_distances E s row_node row_nodes ct of
        (s1, Inl e) \<Rightarrow> (s1, Inl e)
      | (s1, Inr r) \<Rightarrow>
         (case rows_loop E s1 rows row_nodes ct of
            (s2, Inl e) \<Rightarrow> (s2, Inl e)
          | (s2, Inr rs) \<Rightarrow> (s2, Inr (r # rs))))"

definition create_numpy_matrix_parallel ::
  "'cp env \<Rightarrow> state \<Rightarrow> node_id list \<Rightarrow> cost_type \<Rightarrow> state \<times> (error + real list list)" where
  "create_numpy_matrix_parallel E s row_nodes ct = rows_loop E s row_nodes row_nodes ct"

subsection \<open>The network skim\<close>

text \<open>
  \<^verbatim>\<open>str.strip\<close> and \<^verbatim>\<open>str.isdigit\<close>, for ASCII text: the white space characters are
  tab to carriage return, the four separators 28 to 31, and the blank; the digits are 0
  to 9.
\<close>

definition py_isspace :: "char \<Rightarrow> bool" where
  "py_isspace c = (of_char c \<in> {9, 10, 11, 12, 13, 28, 29, 30, 31, 32 :: nat})"

definition py_strip :: "string \<Rightarrow> string" where
  "py_strip s = rev (dropWhile py_isspace (rev (dropWhile py_isspace s)))"

definition py_isdigit :: "string \<Rightarrow> bool" where
  "py_isdigit s = (s \<noteq> [] \<and> list_all (\<lambda>c. 48 \<le> (of_char c :: nat) \<and> (of_char c :: nat) \<le> 57) s)"

fun centroid_loop :: "node list \<Rightarrow> nat list \<Rightarrow> error + string list" where
  "centroid_loop ns [] = Inr []"
| "centroid_loop ns (i # is) =
     (case py_index ns (int i) of
        Inl e \<Rightarrow> Inl e
      | Inr n \<Rightarrow>
         (case centroid_loop ns is of
            Inl e \<Rightarrow> Inl e
          | Inr zs \<Rightarrow>
             (case zone_id n of
                None \<Rightarrow> Inr zs
              | Some z \<Rightarrow> if z \<noteq> [] \<and> py_isdigit (py_strip z) then Inr (z # zs) else Inr zs)))"

definition walk_fftt :: "mode \<Rightarrow> link \<Rightarrow> error + real" where
  "walk_fftt m l =
     (if mode_ffs m = 0 then Inl ZeroDivisionError
      else Inr ((link_length l * 5280) / mode_ffs m / 60))"

definition bike_fftt :: "mode \<Rightarrow> link \<Rightarrow> error + real" where
  "bike_fftt m l =
     (if mode_ffs m = 0 then Inl ZeroDivisionError
      else Inr (link_length l / mode_ffs m * 60))"

text \<open>
  One \<^verbatim>\<open>for i in range(G.link_size)\<close> loop of the source: the links selected by
  \<open>sel\<close> get the free-flow travel time \<open>f\<close> computes from them.
\<close>

fun fftt_loop ::
  "(link \<Rightarrow> bool) \<Rightarrow> (link \<Rightarrow> error + real) \<Rightarrow> state \<Rightarrow> nat list \<Rightarrow> state \<times> (error + unit)" where
  "fftt_loop sel f s [] = (s, Inr ())"
| "fftt_loop sel f s (i # is) =
     (case py_index (links s) (int i) of
        Inl e \<Rightarrow> (s, Inl e)
      | Inr l \<Rightarrow>
          if sel l then
            (case f l of
               Inl e \<Rightarrow> (s, Inl e)
             | Inr v \<Rightarrow>
                 fftt_loop sel f
                   (s\<lparr>links := (links s)[i := l\<lparr>fftt := v\<rparr>], trace := trace s @ [SetFftt i v]\<rparr>) is)
          else fftt_loop sel f s is)"

definition mode_transform :: "mode \<Rightarrow> state \<Rightarrow> state \<times> (error + unit)" where
  "mode_transform m s =
     (case (if mode_type m = ''p''
            then fftt_loop (\<lambda>l. True) (walk_fftt m) s [0..<nat (link_size s)]
            else (s, Inr ())) of
        (s1, Inl e) \<Rightarrow> (s1, Inl e)
      | (s1, Inr _) \<Rightarrow>
          if mode_type m = ''t''
          then fftt_loop (\<lambda>l. CHR ''p'' \<in> set (allowed_uses l)) (walk_fftt m) s1
                 [0..<nat (link_size s1)]
          else if mode_type m = ''b''
          then fftt_loop (\<lambda>l. True) (bike_fftt m) s1 [0..<nat (link_size s1)]
          else (s1, Inr ()))"

text \<open>
  The \<^verbatim>\<open>ValueError\<close> carries the rejected output type (the source's message also
  prints a set, in no fixed order). The matrix attributes hold the date and time of the
  run; the export event keeps the format, the directory, the file name and the matrix.
\<close>

definition find_shortest_path_network ::
  "'cp env \<Rightarrow> state \<Rightarrow> string \<Rightarrow> string \<Rightarrow> cost_type \<Rightarrow> mode \<Rightarrow> state \<times> (error + unit)" where
  "find_shortest_path_network E s output_dir output_type ct m =
     (if output_type \<noteq> ''.omx'' \<and> output_type \<noteq> ''.csv'' then (s, Inl (ValueError output_type))
      else
        (case centroid_loop (nodes s) [0..<nat (node_size s)] of
           Inl e \<Rightarrow> (s, Inl e)
         | Inr row_nodes \<Rightarrow>
            (case mode_transform m s of
               (s1, Inl e) \<Rightarrow> (s1, Inl e)
             | (s1, Inr _) \<Rightarrow>
                (case create_numpy_matrix_parallel E s1 row_nodes ct of
                   (s2, Inl e) \<Rightarrow> (s2, Inl e)
                 | (s2, Inr skim_matrix) \<Rightarrow>
                     if ct \<noteq> ''time'' \<and> ct \<noteq> ''distance'' then (s2, Inl UnboundLocalError)
                     else if output_type = ''.csv''
                     then (s2\<lparr>trace := trace s2 @
                                [Export output_type output_dir
                                   (''shortest_path_matrix_'' @ ct @ ''_'' @ mode_name m @ output_type)
                                   skim_matrix]\<rparr>, Inr ())
                     else (s2\<lparr>trace := trace s2 @
                                [Export output_type output_dir
                                   (''shortest_path_matrix_'' @ ct @ output_type)
                                   skim_matrix]\<rparr>, Inr ())))))"

subsection \<open>Paths for agents\<close>








subsection \<open>What the spec asks of a completed tree\<close>

definition origin_of_tree :: "state \<Rightarrow> node_id \<Rightarrow> int \<Rightarrow> bool" where
  \<comment> \<open>Modelled from the spec: the engine that fills the tree is missing from the sources.
      In a completed tree the origin's predecessors are "none" (a negative index, the
      value the walks of path.py stop at), the tree arrays cover the origin's index, and
      the two ID maps agree on the origin.\<close>
  "origin_of_tree s origin origin_no =
     (map_id_to_no s origin = Some origin_no \<and> map_no_to_id s origin_no = Some origin \<and>
      0 \<le> origin_no \<and> origin_no < int (length (node_preds s)) \<and>
      origin_no < int (length (link_preds s)) \<and>
      node_preds s ! nat origin_no < 0 \<and> link_preds s ! nat origin_no < 0)"


definition costs_current :: "'cp env \<Rightarrow> state \<Rightarrow> bool" where
  \<comment> \<open>The link cost array is the one the remembered selector derives from the links as
      they are: the link data have not changed since the array was built.\<close>
  "costs_current E s = (link_costs s = map (link_cost_of E (prev_cost_type s)) (links s))"

definition tree_of :: "state \<Rightarrow> tree" where
  "tree_of s = (node_label_cost s, node_preds s, link_preds s)"

definition engine_calls :: "event list \<Rightarrow> int list" where
  \<comment> \<open>The origins of the engine calls that an event log holds, in order.\<close>
  "engine_calls evs = concat (map (\<lambda>ev. case ev of EngineCall no \<Rightarrow> [no] | _ \<Rightarrow> []) evs)"

definition rebuilds :: "event list \<Rightarrow> cost_type list" where
  \<comment> \<open>The selectors of the cost rebuilds that an event log holds, in order.\<close>
  "rebuilds evs = concat (map (\<lambda>ev. case ev of Rebuild ct \<Rightarrow> [ct] | _ \<Rightarrow> []) evs)"

subsection \<open>Notions for stating and proving the claims\<close>

definition ensure_costs :: "'cp env \<Rightarrow> cost_type \<Rightarrow> state \<Rightarrow> state" where
  \<comment> \<open>The selector check of \<open>single_source_shortest_path\<close>, on its own.\<close>
  "ensure_costs E ct s =
     (if prev_cost_type s \<noteq> ct then (init_link_costs E ct s)\<lparr>prev_cost_type := ct\<rparr> else s)"

definition known_rows :: "state \<Rightarrow> node_id list \<Rightarrow> bool" where
  \<comment> \<open>Every row node is a known node ID whose index lies inside the node count.\<close>
  "known_rows s row_nodes =
     list_all (\<lambda>r. case map_id_to_no s r of
                      None \<Rightarrow> False
                    | Some no \<Rightarrow> 0 \<le> no \<and> no < node_size s) row_nodes"

definition tree_complete :: "'cp env \<Rightarrow> state \<Rightarrow> cost_type \<Rightarrow> bool" where
  \<comment> \<open>Modelled from the spec: the engine is missing from the sources. Called for any
      origin of the network on the cost array of the selector, it returns label arrays
      "sized to the full node count", and "the origin's label is zero".\<close>
  "tree_complete E s ct =
     list_all (\<lambda>origin.
        let labels = fst (shortest_path_n E (int origin) (node_size s) (view s)
                            (link_costs (ensure_costs E ct s)) (MAX_LABEL_COST E) 0)
        in length labels = nat (node_size s) \<and> labels ! origin = 0)
       [0..<nat (node_size s)]"

definition same_query_view :: "'cp env \<Rightarrow> cost_type \<Rightarrow> state \<Rightarrow> state \<Rightarrow> bool" where
  \<comment> \<open>Two states that a query under the selector cannot tell apart.\<close>
  "same_query_view E ct s t =
     (map_id_to_no s = map_id_to_no t \<and> node_size s = node_size t \<and> view s = view t \<and>
      link_costs (ensure_costs E ct s) = link_costs (ensure_costs E ct t))"

text \<open>
  What the spec says a mode does to a link: which links a mode converts, and the
  free-flow travel time a converted link gets.
\<close>

definition mode_selects :: "mode \<Rightarrow> link \<Rightarrow> bool" where
  "mode_selects m l =
     (if mode_type m = ''p'' then True
      else if mode_type m = ''t'' then CHR ''p'' \<in> set (allowed_uses l)
      else if mode_type m = ''b'' then True
      else False)"

definition mode_fftt :: "mode \<Rightarrow> link \<Rightarrow> real" where
  "mode_fftt m l =
     (if mode_type m = ''b'' then link_length l / mode_ffs m * 60
      else (link_length l * 5280) / mode_ffs m / 60)"

definition mode_link :: "mode \<Rightarrow> link \<Rightarrow> link" where
  "mode_link m l = (if mode_selects m l then l\<lparr>fftt := mode_fftt m l\<rparr> else l)"

definition mode_writes :: "mode \<Rightarrow> link list \<Rightarrow> event list" where
  \<comment> \<open>One write for each converted link, in the order of the links.\<close>
  "mode_writes m ls =
     map (\<lambda>i. SetFftt i (mode_fftt m (ls ! i)))
       (filter (\<lambda>i. mode_selects m (ls ! i)) [0..<length ls])"

definition fftt_writes :: "event list \<Rightarrow> (nat \<times> real) list" where
  \<comment> \<open>The writes to free-flow travel times that an event log holds.\<close>
  "fftt_writes evs = concat (map (\<lambda>ev. case ev of SetFftt i v \<Rightarrow> [(i, v)] | _ \<Rightarrow> []) evs)"

definition processed_origins :: "agent list \<Rightarrow> node_id list" where
  \<comment> \<open>The origins of the agents the loop does not skip, in order.\<close>
  "processed_origins ags = map o_node_id (filter (\<lambda>a. o_node_id a \<noteq> d_node_id a) ags)"


subsection \<open>A worked example: the diamond network of the spec\<close>

text \<open>
  Nodes 1 to 4 with the links 1-2, 1-3, 2-4 and 3-4. For the examples the engine
  parameter is a small label-correcting engine (rounds of relaxation over all links) and
  the selector "time" reads a link's free-flow travel time, a selector starting with
  "dis" its length.
\<close>

fun relax ::
  "real \<Rightarrow> tree \<Rightarrow> (int \<times> int \<times> int \<times> real) \<Rightarrow> tree" where
  "relax M (lab, np, lp) (k, u, w, c) =
     (if lab ! nat u < M \<and> lab ! nat u + c < lab ! nat w
      then (lab[nat w := lab ! nat u + c], np[nat w := u], lp[nat w := k])
      else (lab, np, lp))"

fun rounds :: "nat \<Rightarrow> real \<Rightarrow> (int \<times> int \<times> int \<times> real) list \<Rightarrow> tree \<Rightarrow> tree" where
  "rounds 0 M ls t = t"
| "rounds (Suc n) M ls t = rounds n M ls (foldl (relax M) t ls)"

fun link_rows :: "int \<Rightarrow> int list \<Rightarrow> int list \<Rightarrow> real list \<Rightarrow> (int \<times> int \<times> int \<times> real) list" where
  "link_rows k (u # us) (w # ws) (c # cs) = (k, u, w, c) # link_rows (k + 1) us ws cs"
| "link_rows k us ws cs = []"

definition example_engine ::
  "int \<Rightarrow> int \<Rightarrow> graph_view \<Rightarrow> real list \<Rightarrow> real \<Rightarrow> int \<Rightarrow> tree" where
  "example_engine origin n v costs M dep =
     rounds (nat n) M (link_rows 0 (from_node_no_arr v) (to_node_no_arr v) costs)
       ((replicate (nat n) M)[nat origin := of_int dep],
        replicate (nat n) (- 1), replicate (nat n) (- 1))"

definition example_env :: "agent list env" where
  "example_env =
     \<lparr>MAX_LABEL_COST = 2147483647,
      shortest_path_n = example_engine,
      link_cost_of = (\<lambda>ct l. if startswith ct ''dis'' then link_length l else fftt l),
      setup_agents = (\<lambda>column_pool s. column_pool),
      fmt_4f = (\<lambda>c. ''?'')\<rparr>"

definition diamond_view :: graph_view where
  "diamond_view =
     \<lparr>from_node_no_arr = [0, 0, 1, 2], to_node_no_arr = [1, 2, 3, 3],
      first_links = [0, 2, 3, 4], last_links = [2, 3, 4, 4],
      sorted_link_no_arr = [0, 1, 2, 3],
      allowed_uses_arr = [''ap'', ''a'', ''ap'', ''a''], agent_type_name = ''a'',
      last_thru_node = 4\<rparr>"

definition diamond :: state where
  "diamond =
     \<lparr>map_id_to_no = map_of [(''1'', 0), (''2'', 1), (''3'', 2), (''4'', 3)],
      map_no_to_id = map_of [(0, ''1''), (1, ''2''), (2, ''3''), (3, ''4'')],
      nodes = [\<lparr>zone_id = Some ''1''\<rparr>, \<lparr>zone_id = None\<rparr>, \<lparr>zone_id = None\<rparr>,
               \<lparr>zone_id = Some ''4''\<rparr>],
      node_size = 4,
      links = [\<lparr>link_id = ''a'', fftt = 1, link_length = 10, allowed_uses = ''ap''\<rparr>,
               \<lparr>link_id = ''b'', fftt = 4, link_length = 1, allowed_uses = ''a''\<rparr>,
               \<lparr>link_id = ''c'', fftt = 2, link_length = 10, allowed_uses = ''ap''\<rparr>,
               \<lparr>link_id = ''d'', fftt = 1, link_length = 1, allowed_uses = ''a''\<rparr>],
      link_size = 4,
      agents = [],
      node_label_cost = [2147483647, 2147483647, 2147483647, 2147483647],
      node_preds = [- 1, - 1, - 1, - 1],
      link_preds = [- 1, - 1, - 1, - 1],
      link_costs = [1, 4, 2, 1],
      view = diamond_view,
      length_unit = ''mile'',
      prev_cost_type = ''time'',
      trace = []\<rparr>"


definition home_agent :: agent where
  "home_agent = \<lparr>o_node_id = ''2'', d_node_id = ''2'', path_cost = 0, node_path = None,
                  link_path = None\<rparr>"

definition stranded_agent :: agent where
  "stranded_agent = \<lparr>o_node_id = ''4'', d_node_id = ''1'', path_cost = 0, node_path = None,
                      link_path = None\<rparr>"

definition commuter :: agent where
  "commuter = \<lparr>o_node_id = ''1'', d_node_id = ''4'', path_cost = 0, node_path = None,
                link_path = None\<rparr>"




section \<open>Basic facts\<close>

lemma diamond_time_tree:
  "example_engine 0 4 diamond_view [1, 4, 2, 1] 2147483647 0 =
     ([0, 1, 4, 3], [- 1, 0, 0, 1], [- 1, 0, 1, 2])"
  by (simp add: example_engine_def diamond_view_def numeral_eq_Suc)

lemma diamond_distance_tree:
  "example_engine 0 4 diamond_view [10, 1, 10, 1] 2147483647 0 =
     ([0, 10, 1, 2], [- 1, 0, 0, 2], [- 1, 0, 1, 3])"
  by (simp add: example_engine_def diamond_view_def numeral_eq_Suc)

lemma diamond_tree_from_4:
  "example_engine 3 4 diamond_view [1, 4, 2, 1] 2147483647 0 =
     ([2147483647, 2147483647, 2147483647, 0], [- 1, - 1, - 1, - 1], [- 1, - 1, - 1, - 1])"
  by (simp add: example_engine_def diamond_view_def numeral_eq_Suc)

lemma sssp_known:
  "map_id_to_no s orig = Some no \<Longrightarrow>
   single_source_shortest_path E s orig ct =
     (optimal_label_correcting_CAPI E (ensure_costs E ct s) no, Inr ())"
  by (simp add: single_source_shortest_path_def ensure_costs_def get_node_no_def py_lookup_def
      Let_def allocate_for_CAPI_def init_link_costs_def)

lemma sssp_unknown:
  "map_id_to_no s orig = None \<Longrightarrow>
   single_source_shortest_path E s orig ct = (ensure_costs E ct s, Inl KeyError)"
  by (simp add: single_source_shortest_path_def ensure_costs_def get_node_no_def py_lookup_def
      Let_def allocate_for_CAPI_def init_link_costs_def)

lemma ensure_costs_frame [simp]:
  "map_id_to_no (ensure_costs E ct s) = map_id_to_no s"
  "map_no_to_id (ensure_costs E ct s) = map_no_to_id s"
  "view (ensure_costs E ct s) = view s"
  "node_size (ensure_costs E ct s) = node_size s"
  "links (ensure_costs E ct s) = links s"
  "agents (ensure_costs E ct s) = agents s"
  "node_label_cost (ensure_costs E ct s) = node_label_cost s"
  "node_preds (ensure_costs E ct s) = node_preds s"
  "link_preds (ensure_costs E ct s) = link_preds s"
  "prev_cost_type (ensure_costs E ct s) = ct"
  by (simp_all add: ensure_costs_def init_link_costs_def)

lemma ensure_costs_link_costs:
  "link_costs (ensure_costs E ct s) =
     (if prev_cost_type s \<noteq> ct then map (link_cost_of E ct) (links s) else link_costs s)"
  by (simp add: ensure_costs_def init_link_costs_def)

lemma ensure_costs_trace:
  "trace (ensure_costs E ct s) = trace s @ (if prev_cost_type s \<noteq> ct then [Rebuild ct] else [])"
  by (simp add: ensure_costs_def init_link_costs_def)


lemma capi_frame [simp]:
  "map_id_to_no (optimal_label_correcting_CAPI E s no) = map_id_to_no s"
  "map_no_to_id (optimal_label_correcting_CAPI E s no) = map_no_to_id s"
  "view (optimal_label_correcting_CAPI E s no) = view s"
  "node_size (optimal_label_correcting_CAPI E s no) = node_size s"
  "links (optimal_label_correcting_CAPI E s no) = links s"
  "agents (optimal_label_correcting_CAPI E s no) = agents s"
  "link_costs (optimal_label_correcting_CAPI E s no) = link_costs s"
  "prev_cost_type (optimal_label_correcting_CAPI E s no) = prev_cost_type s"
  "trace (optimal_label_correcting_CAPI E s no) = trace s @ [EngineCall no]"
  by (simp_all add: optimal_label_correcting_CAPI_def split: prod.splits)

lemma capi_tree:
  "tree_of (optimal_label_correcting_CAPI E s no) =
     shortest_path_n E no (node_size s) (view s) (link_costs s) (MAX_LABEL_COST E) 0"
  by (simp add: optimal_label_correcting_CAPI_def tree_of_def split: prod.splits)

lemma rebuilds_append [simp]: "rebuilds (xs @ ys) = rebuilds xs @ rebuilds ys"
  by (simp add: rebuilds_def)

lemma engine_calls_append [simp]: "engine_calls (xs @ ys) = engine_calls xs @ engine_calls ys"
  by (simp add: engine_calls_def)

lemma rebuilds_simps [simp]:
  "rebuilds [] = []" "rebuilds [Rebuild ct] = [ct]" "rebuilds [EngineCall no] = []"
  "rebuilds [SetFftt i v] = []"
  by (simp_all add: rebuilds_def)

lemma engine_calls_simps [simp]:
  "engine_calls [] = []" "engine_calls [Rebuild ct] = []" "engine_calls [EngineCall no] = [no]"
  "engine_calls [SetFftt i v] = []"
  by (simp_all add: engine_calls_def)

lemma diamond_costs_current: "costs_current example_env diamond"
  by (simp add: costs_current_def diamond_def example_env_def startswith_def)

lemma diamond_known:
  "map_id_to_no diamond ''1'' = Some 0" "map_id_to_no diamond ''2'' = Some 1"
  "map_id_to_no diamond ''3'' = Some 2" "map_id_to_no diamond ''4'' = Some 3"
  by (simp_all add: diamond_def)

lemma diamond_fields:
  "node_size diamond = 4" "view diamond = diamond_view" "prev_cost_type diamond = ''time''"
  "link_costs diamond = [1, 4, 2, 1]" "trace diamond = []"
  "map (link_cost_of example_env ''time'') (links diamond) = [1, 4, 2, 1]"
  "map (link_cost_of example_env ''distance'') (links diamond) = [10, 1, 10, 1]"
  "MAX_LABEL_COST example_env = 2147483647" "shortest_path_n example_env = example_engine"
  by (simp_all add: diamond_def example_env_def startswith_def)

lemma capi_labels:
  "node_label_cost (optimal_label_correcting_CAPI E s no) =
     fst (shortest_path_n E no (node_size s) (view s) (link_costs s) (MAX_LABEL_COST E) 0)"
  by (simp add: optimal_label_correcting_CAPI_def split: prod.splits)

lemma same_query_view_refl [simp]: "same_query_view E ct s s"
  by (simp add: same_query_view_def)

lemma same_query_view_trans:
  "same_query_view E ct s t \<Longrightarrow> same_query_view E ct t u \<Longrightarrow> same_query_view E ct s u"
  by (simp add: same_query_view_def)

lemma gsp_snd_cong:
  assumes "same_query_view E ct s t"
  shows "snd (get_shortest_path E s a b ct) = snd (get_shortest_path E t a b ct)"
proof -
  from assms have m: "map_id_to_no s = map_id_to_no t" and n: "node_size s = node_size t"
    and v: "view s = view t"
    and c: "link_costs (ensure_costs E ct s) = link_costs (ensure_costs E ct t)"
    by (simp_all add: same_query_view_def)
  show ?thesis
  proof (cases "map_id_to_no t a")
    case None
    then show ?thesis by (simp add: get_shortest_path_def m)
  next
    case (Some ano)
    then show ?thesis
      by (cases "map_id_to_no t b")
        (simp_all add: get_shortest_path_def m sssp_known get_path_cost_def py_lookup_def
          capi_labels n v c split: sum.splits)
  qed
qed

lemma gsp_fst_view: "same_query_view E ct (fst (get_shortest_path E s a b ct)) s"
proof (cases "map_id_to_no s a")
  case None
  then show ?thesis by (simp add: get_shortest_path_def)
next
  case (Some ano)
  then show ?thesis
    by (cases "map_id_to_no s b")
      (auto simp: get_shortest_path_def sssp_known same_query_view_def ensure_costs_link_costs
        split: sum.splits)
qed

lemma tree_completeD:
  assumes "tree_complete E s ct" and "0 \<le> no" and "no < node_size s"
  shows "length (fst (shortest_path_n E no (node_size s) (view s)
            (link_costs (ensure_costs E ct s)) (MAX_LABEL_COST E) 0)) = nat (node_size s) \<and>
         fst (shortest_path_n E no (node_size s) (view s)
            (link_costs (ensure_costs E ct s)) (MAX_LABEL_COST E) 0) ! nat no = 0"
proof -
  have "nat no \<in> set [0..<nat (node_size s)]" using assms(2,3) by simp
  with assms(1) have
    "let labels = fst (shortest_path_n E (int (nat no)) (node_size s) (view s)
                            (link_costs (ensure_costs E ct s)) (MAX_LABEL_COST E) 0)
     in length labels = nat (node_size s) \<and> labels ! nat no = 0"
    unfolding tree_complete_def list_all_iff by blast
  then show ?thesis using assms(2) by (simp add: Let_def)
qed

lemma gsp_value:
  assumes "map_id_to_no s a = Some ano" and "0 \<le> ano" and "ano < node_size s"
    and "map_id_to_no s b = Some bno" and "0 \<le> bno" and "bno < node_size s"
    and "tree_complete E s ct"
  shows "\<exists>v. snd (get_shortest_path E s a b ct) = Inr v"
proof -
  have "length (fst (shortest_path_n E ano (node_size s) (view s)
            (link_costs (ensure_costs E ct s)) (MAX_LABEL_COST E) 0)) = nat (node_size s)"
    using tree_completeD [OF assms(7,2,3)] by simp
  then show ?thesis
    using assms(1,4,5,6)
    by (simp add: get_shortest_path_def sssp_known get_path_cost_def py_lookup_def capi_labels
        py_index_def)
qed

lemma gsp_diagonal:
  assumes "map_id_to_no s a = Some ano" and "0 \<le> ano" and "ano < node_size s"
    and "tree_complete E s ct" and "0 < MAX_LABEL_COST E"
  shows "snd (get_shortest_path E s a a ct) = Inr 0"
  using tree_completeD [OF assms(4,2,3)] assms(1,2,3,5)
  by (simp add: get_shortest_path_def sssp_known get_path_cost_def py_lookup_def capi_labels
      py_index_def)

lemma row_loop_map:
  assumes "same_query_view E ct s s0"
    and "\<forall>c\<in>set cols. \<exists>v. snd (get_shortest_path E s0 r c ct) = Inr v"
  shows "\<exists>s'. row_loop E s r cols ct =
           (s', Inr (map (\<lambda>c. projr (snd (get_shortest_path E s0 r c ct))) cols)) \<and>
         same_query_view E ct s' s0"
  using assms
proof (induction cols arbitrary: s)
  case Nil
  then show ?case by simp
next
  case (Cons c cols)
  obtain s1 x where g: "get_shortest_path E s r c ct = (s1, x)" by (cases "get_shortest_path E s r c ct")
  from Cons.prems(2) obtain v where v: "snd (get_shortest_path E s0 r c ct) = Inr v" by auto
  have x: "x = Inr v" using gsp_snd_cong [OF Cons.prems(1), of r c] g v by simp
  have s1: "same_query_view E ct s1 s0"
    using gsp_fst_view [of E ct s r c] g Cons.prems(1) by (auto intro: same_query_view_trans)
  from Cons.IH [OF s1] Cons.prems(2) obtain s' where
    r: "row_loop E s1 r cols ct =
           (s', Inr (map (\<lambda>c. projr (snd (get_shortest_path E s0 r c ct))) cols))"
    and q: "same_query_view E ct s' s0" by auto
  show ?case using g x r q v by simp
qed

lemma rows_loop_map:
  assumes "same_query_view E ct s s0"
    and "\<forall>r\<in>set rows. \<forall>c\<in>set cols. \<exists>v. snd (get_shortest_path E s0 r c ct) = Inr v"
  shows "\<exists>s'. rows_loop E s rows cols ct =
           (s', Inr (map (\<lambda>r. map (\<lambda>c. projr (snd (get_shortest_path E s0 r c ct))) cols) rows)) \<and>
         same_query_view E ct s' s0"
  using assms
proof (induction rows arbitrary: s)
  case Nil
  then show ?case by simp
next
  case (Cons r rows)
  from row_loop_map [OF Cons.prems(1), of cols r] Cons.prems(2) obtain s1 where
    a: "row_loop E s r cols ct =
           (s1, Inr (map (\<lambda>c. projr (snd (get_shortest_path E s0 r c ct))) cols))"
    and q: "same_query_view E ct s1 s0" by auto
  from Cons.IH [OF q] Cons.prems(2) obtain s' where
    b: "rows_loop E s1 rows cols ct =
           (s', Inr (map (\<lambda>r. map (\<lambda>c. projr (snd (get_shortest_path E s0 r c ct))) cols) rows))"
    and q': "same_query_view E ct s' s0" by auto
  show ?case using a b q' by (simp add: compute_row_distances_def)
qed

lemma diamond_tree_from_2:
  "example_engine 1 4 diamond_view [1, 4, 2, 1] 2147483647 0 =
     ([2147483647, 0, 2147483647, 2], [- 1, - 1, - 1, 1], [- 1, - 1, - 1, 2])"
  by (simp add: example_engine_def diamond_view_def numeral_eq_Suc)

lemma diamond_tree_from_3:
  "example_engine 2 4 diamond_view [1, 4, 2, 1] 2147483647 0 =
     ([2147483647, 2147483647, 0, 1], [- 1, - 1, - 1, 2], [- 1, - 1, - 1, 3])"
  by (simp add: example_engine_def diamond_view_def numeral_eq_Suc)

lemma diamond_tree_complete: "tree_complete example_env diamond ''time''"
proof -
  have u: "[0..<4] = [0, 1, 2, 3::nat]" by (simp add: upt_rec)
  show ?thesis
    by (simp add: tree_complete_def diamond_fields u ensure_costs_link_costs diamond_time_tree
        diamond_tree_from_2 diamond_tree_from_3 diamond_tree_from_4)
qed

lemma fftt_writes_append [simp]: "fftt_writes (xs @ ys) = fftt_writes xs @ fftt_writes ys"
  by (simp add: fftt_writes_def)

lemma fftt_writes_simps [simp]:
  "fftt_writes [] = []" "fftt_writes (Rebuild ct # evs) = fftt_writes evs"
  "fftt_writes (EngineCall no # evs) = fftt_writes evs"
  "fftt_writes (SetFftt i v # evs) = (i, v) # fftt_writes evs"
  "fftt_writes (Export a b c d # evs) = fftt_writes evs"
  by (simp_all add: fftt_writes_def)

lemma fftt_loop_spec:
  assumes "\<forall>i\<in>set is. i < length (links s)" and "distinct is"
    and "\<And>l. sel l \<Longrightarrow> f l = Inr (g l)"
  shows "fftt_loop sel f s is =
           (s\<lparr>links := map (\<lambda>j. if j \<in> set is \<and> sel (links s ! j)
                                 then (links s ! j)\<lparr>fftt := g (links s ! j)\<rparr>
                                 else links s ! j) [0..<length (links s)],
              trace := trace s @ map (\<lambda>i. SetFftt i (g (links s ! i)))
                                   (filter (\<lambda>i. sel (links s ! i)) is)\<rparr>, Inr ())"
  using assms(1,2)
proof (induction "is" arbitrary: s)
  case Nil
  have "map (\<lambda>j. links s ! j) [0..<length (links s)] = links s" by (simp add: map_nth)
  then show ?case by simp
next
  case (Cons i "is")
  have i: "i < length (links s)" and ni: "i \<notin> set is" using Cons.prems by auto
  have ix: "py_index (links s) (int i) = Inr (links s ! i)" using i by (simp add: py_index_def)
  show ?case
  proof (cases "sel (links s ! i)")
    case False
    have "fftt_loop sel f s (i # is) = fftt_loop sel f s is" using False ix by simp
    also have "\<dots> = (s\<lparr>links := map (\<lambda>j. if j \<in> set is \<and> sel (links s ! j)
                                 then (links s ! j)\<lparr>fftt := g (links s ! j)\<rparr>
                                 else links s ! j) [0..<length (links s)],
              trace := trace s @ map (\<lambda>i. SetFftt i (g (links s ! i)))
                                   (filter (\<lambda>i. sel (links s ! i)) is)\<rparr>, Inr ())"
      using Cons.IH [of s] Cons.prems by simp
    finally show ?thesis using False by (auto intro!: arg_cong2 [where f = "\<lambda>a b. (s\<lparr>links := a, trace := b\<rparr>, Inr ())"])
  next
    case True
    let ?l = "links s ! i"
    let ?s1 = "s\<lparr>links := (links s)[i := ?l\<lparr>fftt := g ?l\<rparr>], trace := trace s @ [SetFftt i (g ?l)]\<rparr>"
    have st: "fftt_loop sel f s (i # is) = fftt_loop sel f ?s1 is"
      using True ix assms(3) [OF True] by simp
    have p1: "\<forall>j\<in>set is. j < length (links ?s1)" using Cons.prems by simp
    have p2: "distinct is" using Cons.prems by simp
    have e: "\<And>j. j \<in> set is \<Longrightarrow> links ?s1 ! j = links s ! j"
    proof -
      fix j assume "j \<in> set is"
      then have "i \<noteq> j" using ni by auto
      then show "links ?s1 ! j = links s ! j" by simp
    qed
    have l1: "map (\<lambda>j. if j \<in> set is \<and> sel (links ?s1 ! j)
                        then (links ?s1 ! j)\<lparr>fftt := g (links ?s1 ! j)\<rparr>
                        else links ?s1 ! j) [0..<length (links ?s1)] =
              map (\<lambda>j. if j \<in> set (i # is) \<and> sel (links s ! j)
                        then (links s ! j)\<lparr>fftt := g (links s ! j)\<rparr>
                        else links s ! j) [0..<length (links s)]"
      using True i ni by (auto simp: nth_list_update)
    have l2: "filter (\<lambda>k. sel (links ?s1 ! k)) is = filter (\<lambda>k. sel (links s ! k)) is"
      using e by (intro filter_cong) auto
    have l3: "map (\<lambda>k. SetFftt k (g (links ?s1 ! k))) (filter (\<lambda>k. sel (links s ! k)) is) =
              map (\<lambda>k. SetFftt k (g (links s ! k))) (filter (\<lambda>k. sel (links s ! k)) is)"
      using e by (intro map_cong) auto
    show ?thesis
      unfolding st Cons.IH [OF p1 p2] l1 l2 l3 using True by simp
  qed
qed


lemma fftt_loop_all:
  assumes "\<And>l. sel l \<Longrightarrow> f l = Inr (g l)"
  shows "fftt_loop sel f s [0..<length (links s)] =
           (s\<lparr>links := map (\<lambda>l. if sel l then l\<lparr>fftt := g l\<rparr> else l) (links s),
              trace := trace s @ map (\<lambda>i. SetFftt i (g (links s ! i)))
                                   (filter (\<lambda>i. sel (links s ! i)) [0..<length (links s)])\<rparr>,
            Inr ())"
proof -
  have r: "\<forall>i\<in>set [0..<length (links s)]. i < length (links s)" "distinct [0..<length (links s)]"
    by simp_all
  have m: "map (\<lambda>j. if j \<in> set [0..<length (links s)] \<and> sel (links s ! j)
                      then (links s ! j)\<lparr>fftt := g (links s ! j)\<rparr> else links s ! j)
             [0..<length (links s)] =
           map (\<lambda>l. if sel l then l\<lparr>fftt := g l\<rparr> else l) (links s)"
    by (intro nth_equalityI) simp_all
  have "fftt_loop sel f s [0..<length (links s)] =
          (s\<lparr>links := map (\<lambda>j. if j \<in> set [0..<length (links s)] \<and> sel (links s ! j)
                                 then (links s ! j)\<lparr>fftt := g (links s ! j)\<rparr>
                                 else links s ! j) [0..<length (links s)],
              trace := trace s @ map (\<lambda>i. SetFftt i (g (links s ! i)))
                                   (filter (\<lambda>i. sel (links s ! i)) [0..<length (links s)])\<rparr>,
           Inr ())"
    by (rule fftt_loop_spec [OF r assms])
  then show ?thesis by (simp only: m)
qed

lemma mode_transform_spec:
  assumes "link_size s = int (length (links s))" and "mode_ffs m \<noteq> 0"
  shows "mode_transform m s =
           (s\<lparr>links := map (mode_link m) (links s),
              trace := trace s @ mode_writes m (links s)\<rparr>, Inr ())"
proof -
  have n: "[0..<nat (link_size s)] = [0..<length (links s)]" using assms(1) by simp
  have wf: "\<And>l. mode_type m \<noteq> ''b'' \<Longrightarrow> walk_fftt m l = Inr (mode_fftt m l)"
    and bf: "\<And>l. mode_type m = ''b'' \<Longrightarrow> bike_fftt m l = Inr (mode_fftt m l)"
    using assms(2) by (simp_all add: walk_fftt_def bike_fftt_def mode_fftt_def)
  consider (p) "mode_type m = ''p''" | (t) "mode_type m = ''t''" | (b) "mode_type m = ''b''"
    | (other) "mode_type m \<noteq> ''p''" "mode_type m \<noteq> ''t''" "mode_type m \<noteq> ''b''"
    by blast
  then show ?thesis
  proof cases
    case p
    have l: "fftt_loop (\<lambda>l. True) (walk_fftt m) s [0..<nat (link_size s)] =
               (s\<lparr>links := map (mode_link m) (links s),
                  trace := trace s @ mode_writes m (links s)\<rparr>, Inr ())"
      unfolding n
      by (subst fftt_loop_all [where g = "mode_fftt m"])
        (simp_all add: wf mode_link_def mode_selects_def mode_writes_def p)
    show ?thesis by (simp add: mode_transform_def p l)
  next
    case t
    have l: "fftt_loop (\<lambda>l. CHR ''p'' \<in> set (allowed_uses l)) (walk_fftt m) s
               [0..<nat (link_size s)] =
               (s\<lparr>links := map (mode_link m) (links s),
                  trace := trace s @ mode_writes m (links s)\<rparr>, Inr ())"
      unfolding n
      by (subst fftt_loop_all [where g = "mode_fftt m"])
        (simp_all add: wf mode_link_def mode_selects_def mode_writes_def t)
    show ?thesis by (simp add: mode_transform_def t l)
  next
    case b
    have l: "fftt_loop (\<lambda>l. True) (bike_fftt m) s [0..<nat (link_size s)] =
               (s\<lparr>links := map (mode_link m) (links s),
                  trace := trace s @ mode_writes m (links s)\<rparr>, Inr ())"
      unfolding n
      by (subst fftt_loop_all [where g = "mode_fftt m"])
        (simp_all add: bf b mode_link_def mode_selects_def mode_writes_def)
    show ?thesis by (simp add: mode_transform_def b l)
  next
    case other
    have "map (mode_link m) (links s) = links s"
      by (simp add: mode_link_def mode_selects_def other map_idI)
    moreover have "mode_writes m (links s) = []"
      by (simp add: mode_writes_def mode_selects_def other)
    ultimately show ?thesis by (simp add: mode_transform_def other)
  qed
qed

lemma gsp_frame:
  "links (fst (get_shortest_path E s a b ct)) = links s \<and>
   (\<exists>rest. trace (fst (get_shortest_path E s a b ct)) = trace s @ rest \<and> fftt_writes rest = [])"
proof (cases "map_id_to_no s a")
  case None
  then show ?thesis by (simp add: get_shortest_path_def)
next
  case (Some ano)
  then show ?thesis
    by (cases "map_id_to_no s b")
      (auto simp: get_shortest_path_def sssp_known ensure_costs_trace split: sum.splits)
qed

lemma row_loop_frame:
  "links (fst (row_loop E s r cols ct)) = links s \<and>
   (\<exists>rest. trace (fst (row_loop E s r cols ct)) = trace s @ rest \<and> fftt_writes rest = [])"
proof (induction cols arbitrary: s)
  case Nil
  then show ?case by simp
next
  case (Cons c cols)
  obtain s1 x where g: "get_shortest_path E s r c ct = (s1, x)"
    by (cases "get_shortest_path E s r c ct")
  from gsp_frame [of E s r c ct] g obtain rest1 where
    a: "links s1 = links s" "trace s1 = trace s @ rest1" "fftt_writes rest1 = []" by auto
  from Cons.IH [of s1] obtain rest2 where
    b: "links (fst (row_loop E s1 r cols ct)) = links s1"
      "trace (fst (row_loop E s1 r cols ct)) = trace s1 @ rest2" "fftt_writes rest2 = []" by auto
  show ?case
  proof (cases x)
    case (Inl e)
    then show ?thesis using g a by simp
  next
    case (Inr v)
    then show ?thesis using g a b by (auto split: prod.splits sum.splits)
  qed
qed

lemma rows_loop_frame:
  "links (fst (rows_loop E s rows cols ct)) = links s \<and>
   (\<exists>rest. trace (fst (rows_loop E s rows cols ct)) = trace s @ rest \<and> fftt_writes rest = [])"
proof (induction rows arbitrary: s)
  case Nil
  then show ?case by simp
next
  case (Cons r rows)
  obtain s1 x where g: "row_loop E s r cols ct = (s1, x)"
    by (cases "row_loop E s r cols ct")
  from row_loop_frame [of E s r cols ct] g obtain rest1 where
    a: "links s1 = links s" "trace s1 = trace s @ rest1" "fftt_writes rest1 = []" by auto
  from Cons.IH [of s1] obtain rest2 where
    b: "links (fst (rows_loop E s1 rows cols ct)) = links s1"
      "trace (fst (rows_loop E s1 rows cols ct)) = trace s1 @ rest2" "fftt_writes rest2 = []" by auto
  show ?case
  proof (cases x)
    case (Inl e)
    then show ?thesis using g a by (simp add: compute_row_distances_def)
  next
    case (Inr v)
    then show ?thesis using g a b
      by (auto simp: compute_row_distances_def split: prod.splits sum.splits)
  qed
qed








lemma example_agents [simp]:
  "o_node_id home_agent = ''2''" "d_node_id home_agent = ''2''"
  "o_node_id stranded_agent = ''4''" "d_node_id stranded_agent = ''1''"
  "o_node_id commuter = ''1''" "d_node_id commuter = ''4''"
  by (simp_all add: home_agent_def stranded_agent_def commuter_def)

lemma diamond_agents_known [simp]:
  "map_id_to_no (diamond\<lparr>agents := ags\<rparr>) = map_id_to_no diamond"
  by simp


lemma tree_of_agents [simp]: "tree_of (s\<lparr>agents := X\<rparr>) = tree_of s"
  by (simp add: tree_of_def)










lemma remdups_adj_head: "remdups_adj (x # xs) = x # tl (remdups_adj (x # xs))"
proof -
  have "remdups_adj (x # xs) \<noteq> []" by simp
  then have "hd (remdups_adj (x # xs)) # tl (remdups_adj (x # xs)) = remdups_adj (x # xs)"
    by (rule hd_Cons_tl)
  then show ?thesis by (simp add: hd_remdups_adj)
qed

lemma tl_remdups_adj_step:
  "tl (remdups_adj (p # x # xs)) =
     (if p = x then tl (remdups_adj (x # xs)) else x # tl (remdups_adj (x # xs)))"
  using remdups_adj_head [of x xs] by simp


lemma processed_origins_simps [simp]:
  "processed_origins [] = []"
  "processed_origins (a # as) =
     (if o_node_id a \<noteq> d_node_id a then o_node_id a # processed_origins as
      else processed_origins as)"
  by (simp_all add: processed_origins_def)








section \<open>The claims\<close>

text \<open>
  C1. The docstring of \<open>get_shortest_path_tree\<close> promises a dictionary keyed by the
  known node IDs other than the source. The code does not build it: the dictionary
  comprehension stands inside a string literal, and the call returns \<^verbatim>\<open>None\<close>. On
  the diamond network, from node 1, the result is \<open>None\<close>, not a dictionary with the keys
  2, 3 and 4.
\<close>

theorem get_shortest_path_tree_returns_None:
  "snd (get_shortest_path_tree example_env diamond ''1'' ''node'' ''time'' False) = Inr None"
  by (simp add: get_shortest_path_tree_def sssp_known diamond_def)

text \<open>
  C2. When the origin or the destination ID is not a key of the ID-to-index mapping,
  \<open>find_shortest_path\<close> and \<open>get_shortest_path\<close> raise the not-in-network exception
  and return the state they were given: no cost rebuild, no engine call, no change of
  the remembered selector or of the tree. The origin is checked first.
\<close>

theorem unknown_node_raises_before_engine:
  "map_id_to_no s from_node_id = None \<or> map_id_to_no s to_node_id = None \<Longrightarrow>
   find_shortest_path E s from_node_id to_node_id seq_type ct =
     Some (s, Inl (not_in_network
                    (if map_id_to_no s from_node_id = None then from_node_id else to_node_id))) \<and>
   get_shortest_path E s from_node_id to_node_id ct =
     (s, Inl (not_in_network
               (if map_id_to_no s from_node_id = None then from_node_id else to_node_id)))"
  by (auto simp: find_shortest_path_def get_shortest_path_def)

theorem unknown_node_raises_before_engine_witness:
  "(map_id_to_no diamond ''9'' = None \<or> map_id_to_no diamond ''4'' = None) \<and>
   find_shortest_path example_env diamond ''9'' ''4'' ''node'' ''time'' =
     Some (diamond, Inl (Exception ''Node ID: 9 not in the network'')) \<and>
   get_shortest_path example_env diamond ''9'' ''4'' ''time'' =
     (diamond, Inl (Exception ''Node ID: 9 not in the network'')) \<and>
   (map_id_to_no diamond ''1'' = None \<or> map_id_to_no diamond ''7'' = None) \<and>
   find_shortest_path example_env diamond ''1'' ''7'' ''link'' ''distance'' =
     Some (diamond, Inl (Exception ''Node ID: 7 not in the network'')) \<and>
   get_shortest_path example_env diamond ''1'' ''7'' ''distance'' =
     (diamond, Inl (Exception ''Node ID: 7 not in the network''))"
proof -
  have a: "map_id_to_no diamond ''9'' = None" and b: "map_id_to_no diamond ''7'' = None"
    and c: "map_id_to_no diamond ''1'' \<noteq> None"
    by (simp_all add: diamond_def)
  from a have a': "map_id_to_no diamond ''9'' = None \<or> map_id_to_no diamond ''4'' = None" ..
  from b have b': "map_id_to_no diamond ''1'' = None \<or> map_id_to_no diamond ''7'' = None" ..
  show ?thesis
    using unknown_node_raises_before_engine [OF a', of example_env "''node''" "''time''"]
      unknown_node_raises_before_engine [OF b', of example_env "''link''" "''distance''"]
      a b c
    by (simp add: not_in_network_def)
qed

text \<open>
  C3. For known origin and destination, when the label the engine left for the
  destination is at or above the sentinel \<open>MAX_LABEL_COST\<close>, the query does not raise:
  \<open>get_shortest_path\<close> returns the placeholder 9999999, whatever the sentinel and the
  label are, and \<open>find_shortest_path\<close> returns the infinity marker and reconstructs no
  path.
\<close>

theorem unreachable_is_placeholder_not_error:
  assumes "map_id_to_no s from_node_id \<noteq> None"
    and "map_id_to_no s to_node_id = Some to_no"
    and "s' = fst (single_source_shortest_path E s from_node_id ct)"
    and "0 \<le> to_no" and "to_no < int (length (node_label_cost s'))"
    and "node_label_cost s' ! nat to_no \<ge> MAX_LABEL_COST E"
  shows "get_shortest_path E s from_node_id to_node_id ct = (s', Inr 9999999) \<and>
         find_shortest_path E s from_node_id to_node_id seq_type ct =
           Some (s', Inr (''path '' @ ct @ '': infinity | path: ''))"
proof -
  from assms(1) obtain from_no where f: "map_id_to_no s from_node_id = Some from_no"
    by blast
  have m: "map_id_to_no s' to_node_id = Some to_no"
    using assms(2,3) f
    by (simp add: sssp_known optimal_label_correcting_CAPI_def ensure_costs_def
        init_link_costs_def split: prod.splits)
  have c: "get_path_cost s' to_node_id ct = Inr (node_label_cost s' ! nat to_no)"
    using m assms(4,5) by (simp add: get_path_cost_def py_lookup_def py_index_def)
  have r: "single_source_shortest_path E s from_node_id ct = (s', Inr ())"
    using assms(3) f by (simp add: sssp_known)
  show ?thesis
    using f assms(2,6) c r
    by (simp add: get_shortest_path_def find_shortest_path_def)
qed

theorem unreachable_is_placeholder_not_error_witness:
  "get_shortest_path example_env diamond ''4'' ''1'' ''time'' =
     (fst (single_source_shortest_path example_env diamond ''4'' ''time''), Inr 9999999) \<and>
   find_shortest_path example_env diamond ''4'' ''1'' ''node'' ''time'' =
     Some (fst (single_source_shortest_path example_env diamond ''4'' ''time''),
           Inr ''path time: infinity | path: '')"
proof -
  have t: "node_label_cost (fst (single_source_shortest_path example_env diamond ''4'' ''time''))
             = [2147483647, 2147483647, 2147483647, 0]"
    by (simp add: sssp_known [of _ _ 3] diamond_def ensure_costs_def
        optimal_label_correcting_CAPI_def example_env_def diamond_tree_from_4)
  show ?thesis
    using unreachable_is_placeholder_not_error
      [of diamond "''4''" "''1''" 0 _ example_env "''time''" "''node''", OF _ _ refl]
    by (simp add: t) (simp add: diamond_def example_env_def)
qed

text \<open>
  C6. In a completed tree the origin has no predecessors. Asked for the path to the
  origin itself, \<open>output_path_sequence\<close> returns (it neither raises nor runs on): in
  node mode the one-node sequence of the origin, in link mode the empty sequence.
\<close>

theorem origin_path_is_trivial:
  assumes "origin_of_tree s origin origin_no"
  shows "output_path_sequence s origin ty =
           Some (Inr (if startswith ty ''node'' then [origin] else []))"
proof -
  from assms have m: "map_id_to_no s origin = Some origin_no"
    and m': "map_no_to_id s origin_no = Some origin"
    and r: "0 \<le> origin_no" "origin_no < int (length (node_preds s))"
      "origin_no < int (length (link_preds s))"
    and p: "node_preds s ! nat origin_no < 0" "link_preds s ! nat origin_no < 0"
    by (simp_all add: origin_of_tree_def)
  have n: "py_index (node_preds s) origin_no = Inr (node_preds s ! nat origin_no)"
    using r by (simp add: py_index_def)
  have l: "py_index (link_preds s) origin_no = Inr (link_preds s ! nat origin_no)"
    using r by (simp add: py_index_def)
  have w1: "walk_node_preds (node_preds s) origin_no [] = Some (Inr [origin_no])"
    apply (subst walk_node_preds.simps)
    apply (simp add: r n)
    apply (subst walk_node_preds.simps)
    using p by simp
  have w2: "walk_link_preds (node_preds s) (link_preds s) origin_no
              (link_preds s ! nat origin_no) [] = Some (Inr [])"
    apply (subst walk_link_preds.simps)
    using p by simp
  show ?thesis
    by (simp add: output_path_sequence_def py_lookup_def m m' w1 w2 l)
qed

theorem origin_path_is_trivial_witness:
  "origin_of_tree (fst (single_source_shortest_path example_env diamond ''1'' ''time'')) ''1'' 0 \<and>
   output_path_sequence (fst (single_source_shortest_path example_env diamond ''1'' ''time''))
     ''1'' ''node'' = Some (Inr [''1'']) \<and>
   output_path_sequence (fst (single_source_shortest_path example_env diamond ''1'' ''time''))
     ''1'' ''link'' = Some (Inr [])"
proof -
  have s: "fst (single_source_shortest_path example_env diamond ''1'' ''time'') =
             diamond\<lparr>node_label_cost := [0, 1, 4, 3], node_preds := [- 1, 0, 0, 1],
                     link_preds := [- 1, 0, 1, 2], trace := [EngineCall 0]\<rparr>"
    by (simp add: sssp_known [of _ _ 0] diamond_def ensure_costs_def
        optimal_label_correcting_CAPI_def example_env_def diamond_time_tree)
  have o: "origin_of_tree (fst (single_source_shortest_path example_env diamond ''1'' ''time''))
             ''1'' 0"
    unfolding s by (simp add: origin_of_tree_def diamond_def)
  show ?thesis
    using o origin_path_is_trivial [OF o, of "''node''"] origin_path_is_trivial [OF o, of "''link''"]
    by (simp add: startswith_def)
qed



text \<open>
  C9. With the network unchanged (the cost array in use is the one the remembered
  selector derives from the links as they are, and nothing changes the links between the
  calls), computing the tree of an origin under one selector, then switching to another
  selector (a query under it, for any origin), then computing the tree of the first
  origin under the first selector again gives the same labels and predecessor arrays as
  the first time. The claim is the case of the selectors "time" and "distance".
\<close>

theorem selector_round_trip:
  assumes "map_id_to_no s orig_node_id = Some no"
    and "prev_cost_type s \<noteq> a \<or> costs_current E s"
    and "s1 = fst (single_source_shortest_path E s orig_node_id a)"
    and "s2 = fst (single_source_shortest_path E s1 other_node_id b)"
    and "s3 = fst (single_source_shortest_path E s2 orig_node_id a)"
  shows "tree_of s3 = tree_of s1"
proof -
  have s1: "s1 = optimal_label_correcting_CAPI E (ensure_costs E a s) no"
    using assms(1,3) by (simp add: sssp_known)
  have c1: "link_costs s1 = map (link_cost_of E a) (links s)"
    using assms(2) by (auto simp: s1 ensure_costs_link_costs costs_current_def)
  have s2: "s2 = ensure_costs E b s1 \<or>
            (\<exists>k. s2 = optimal_label_correcting_CAPI E (ensure_costs E b s1) k)"
    using assms(4) by (cases "map_id_to_no s1 other_node_id") (auto simp: sssp_known sssp_unknown)
  have f2: "map_id_to_no s2 = map_id_to_no s" "links s2 = links s" "view s2 = view s"
    "node_size s2 = node_size s" "prev_cost_type s2 = b"
    using s2 by (auto simp: s1)
  have c2: "link_costs s2 = (if a \<noteq> b then map (link_cost_of E b) (links s) else link_costs s1)"
    using s2 by (auto simp: ensure_costs_link_costs s1)
  have s3: "s3 = optimal_label_correcting_CAPI E (ensure_costs E a s2) no"
    using assms(1,5) f2 by (simp add: sssp_known)
  have c3: "link_costs (ensure_costs E a s2) = map (link_cost_of E a) (links s)"
    using c1 c2 f2 by (auto simp: ensure_costs_link_costs)
  have c0: "link_costs (ensure_costs E a s) = map (link_cost_of E a) (links s)"
    using assms(2) by (auto simp: ensure_costs_link_costs costs_current_def)
  have "tree_of s1 = shortest_path_n E no (node_size s) (view s)
                       (map (link_cost_of E a) (links s)) (MAX_LABEL_COST E) 0"
    by (simp add: s1 capi_tree c0)
  moreover have "tree_of s3 = shortest_path_n E no (node_size s) (view s)
                       (map (link_cost_of E a) (links s)) (MAX_LABEL_COST E) 0"
    by (simp add: s3 capi_tree c3 f2)
  ultimately show ?thesis by simp
qed


theorem selector_round_trip_witness:
  "tree_of (fst (single_source_shortest_path example_env diamond ''1'' ''time'')) =
     ([0, 1, 4, 3], [- 1, 0, 0, 1], [- 1, 0, 1, 2]) \<and>
   tree_of (fst (single_source_shortest_path example_env
       (fst (single_source_shortest_path example_env diamond ''1'' ''time'')) ''1'' ''distance'')) =
     ([0, 10, 1, 2], [- 1, 0, 0, 2], [- 1, 0, 1, 3]) \<and>
   tree_of (fst (single_source_shortest_path example_env
       (fst (single_source_shortest_path example_env
          (fst (single_source_shortest_path example_env diamond ''1'' ''time''))
          ''1'' ''distance'')) ''1'' ''time'')) =
     ([0, 1, 4, 3], [- 1, 0, 0, 1], [- 1, 0, 1, 2])"
proof -
  have t1: "tree_of (fst (single_source_shortest_path example_env diamond ''1'' ''time'')) =
     ([0, 1, 4, 3], [- 1, 0, 0, 1], [- 1, 0, 1, 2])"
    by (simp add: sssp_known diamond_known capi_tree ensure_costs_link_costs diamond_fields
        diamond_time_tree)
  have t2: "tree_of (fst (single_source_shortest_path example_env
       (fst (single_source_shortest_path example_env diamond ''1'' ''time'')) ''1'' ''distance'')) =
     ([0, 10, 1, 2], [- 1, 0, 0, 2], [- 1, 0, 1, 3])"
    by (simp add: sssp_known diamond_known capi_tree ensure_costs_link_costs diamond_fields
        diamond_distance_tree)
  have c: "prev_cost_type diamond \<noteq> ''time'' \<or> costs_current example_env diamond"
    using diamond_costs_current by simp
  show ?thesis
    using selector_round_trip [OF diamond_known(1) c refl refl refl, of "''1''" "''distance''"]
      t1 t2 by simp
qed

text \<open>
  C8. When every row node is a known node and the engine returns complete trees,
  \<open>create_numpy_matrix_parallel\<close> returns a square matrix over the row nodes whose
  entry (i, j) is the cost \<open>get_shortest_path\<close> returns for row node i and row node j
  (asked on the network as it was handed over), and whose diagonal entries are zero. The
  sentinel is taken to be positive.
\<close>

theorem matrix_entries:
  assumes "known_rows s row_nodes" and "tree_complete E s ct" and "0 < MAX_LABEL_COST E"
  shows "\<exists>s' M. create_numpy_matrix_parallel E s row_nodes ct = (s', Inr M) \<and>
           length M = length row_nodes \<and>
           (\<forall>i<length row_nodes.
              length (M ! i) = length row_nodes \<and> M ! i ! i = 0 \<and>
              (\<forall>j<length row_nodes.
                 snd (get_shortest_path E s (row_nodes ! i) (row_nodes ! j) ct) = Inr (M ! i ! j)))"
proof -
  have k: "\<And>r. r \<in> set row_nodes \<Longrightarrow>
             \<exists>no. map_id_to_no s r = Some no \<and> 0 \<le> no \<and> no < node_size s"
    using assms(1) by (auto simp: known_rows_def list_all_iff split: option.splits)
  have v: "\<forall>r\<in>set row_nodes. \<forall>c\<in>set row_nodes.
             \<exists>v. snd (get_shortest_path E s r c ct) = Inr v"
  proof (intro ballI)
    fix r c assume "r \<in> set row_nodes" "c \<in> set row_nodes"
    with k obtain rno cno where "map_id_to_no s r = Some rno" "0 \<le> rno" "rno < node_size s"
      "map_id_to_no s c = Some cno" "0 \<le> cno" "cno < node_size s" by blast
    then show "\<exists>v. snd (get_shortest_path E s r c ct) = Inr v"
      using gsp_value assms(2) by blast
  qed
  let ?M = "map (\<lambda>r. map (\<lambda>c. projr (snd (get_shortest_path E s r c ct))) row_nodes) row_nodes"
  from rows_loop_map [OF same_query_view_refl v] obtain s' where
    m: "create_numpy_matrix_parallel E s row_nodes ct = (s', Inr ?M)"
    by (auto simp: create_numpy_matrix_parallel_def)
  have "\<forall>i<length row_nodes.
              length (?M ! i) = length row_nodes \<and> ?M ! i ! i = 0 \<and>
              (\<forall>j<length row_nodes.
                 snd (get_shortest_path E s (row_nodes ! i) (row_nodes ! j) ct) = Inr (?M ! i ! j))"
  proof (intro allI impI conjI)
    fix i assume i: "i < length row_nodes"
    show "length (?M ! i) = length row_nodes" using i by simp
    from k [of "row_nodes ! i"] i obtain no where
      "map_id_to_no s (row_nodes ! i) = Some no" "0 \<le> no" "no < node_size s" by auto
    then show "?M ! i ! i = 0"
      using i gsp_diagonal [OF _ _ _ assms(2,3), of "row_nodes ! i" no] by simp
    fix j assume j: "j < length row_nodes"
    from v i j obtain x where "snd (get_shortest_path E s (row_nodes ! i) (row_nodes ! j) ct) = Inr x"
      by (meson nth_mem)
    then show "snd (get_shortest_path E s (row_nodes ! i) (row_nodes ! j) ct) = Inr (?M ! i ! j)"
      using i j by simp
  qed
  with m show ?thesis by (intro exI [of _ s'] exI [of _ ?M]) simp
qed


theorem matrix_entries_witness:
  "known_rows diamond [''1'', ''4''] \<and> tree_complete example_env diamond ''time'' \<and>
   (0::real) < MAX_LABEL_COST example_env \<and>
   (\<exists>s' M. create_numpy_matrix_parallel example_env diamond [''1'', ''4''] ''time'' = (s', Inr M) \<and>
      length M = 2 \<and> M ! 0 ! 0 = 0 \<and> M ! 0 ! 1 = 3 \<and> M ! 1 ! 0 = 9999999 \<and> M ! 1 ! 1 = 0)"
proof -
  have k: "known_rows diamond [''1'', ''4'']"
    by (simp add: known_rows_def diamond_known diamond_fields)
  have m: "0 < MAX_LABEL_COST example_env" by (simp add: diamond_fields)
  have g: "snd (get_shortest_path example_env diamond ''1'' ''4'' ''time'') = Inr 3"
    "snd (get_shortest_path example_env diamond ''4'' ''1'' ''time'') = Inr 9999999"
    by (simp_all add: get_shortest_path_def diamond_known sssp_known get_path_cost_def
        py_lookup_def capi_labels diamond_fields ensure_costs_link_costs diamond_time_tree
        diamond_tree_from_4 py_index_def)
  from matrix_entries [OF k diamond_tree_complete m] obtain s' M where
    c: "create_numpy_matrix_parallel example_env diamond [''1'', ''4''] ''time'' = (s', Inr M)"
    and l: "length M = 2"
    and e: "\<forall>i<2. length (M ! i) = 2 \<and> M ! i ! i = 0 \<and>
              (\<forall>j<2. snd (get_shortest_path example_env diamond ([''1'', ''4''] ! i)
                              ([''1'', ''4''] ! j) ''time'') = Inr (M ! i ! j))"
    by auto
  from e [rule_format, of 0] have e0: "M ! 0 ! 0 = 0"
    and e0': "\<forall>j<2. snd (get_shortest_path example_env diamond ''1''
                              ([''1'', ''4''] ! j) ''time'') = Inr (M ! 0 ! j)" by simp_all
  from e [rule_format, of 1] have e1: "M ! 1 ! 1 = 0"
    and e1': "\<forall>j<2. snd (get_shortest_path example_env diamond ''4''
                              ([''1'', ''4''] ! j) ''time'') = Inr (M ! 1 ! j)" by simp_all
  from e0' [rule_format, of 1] g have a: "M ! 0 ! 1 = 3" by simp
  from e1' [rule_format, of 0] g have b: "M ! 1 ! 0 = 9999999" by simp
  show ?thesis using k m diamond_tree_complete c l e0 e1 a b by simp
qed

text \<open>
  C7. In \<open>find_shortest_path_network\<close>, once the output type is accepted, the mode's
  conversion is written to the links before the matrix computation starts, one write per
  converted link and no write after: for mode "p" every link gets
  (length * 5280) / ffs / 60, for mode "t" the links whose allowed uses include "p" get
  the same and the others stay, for mode "b" every link gets length / ffs * 60. No
  engine call comes before the writes, the matrix is computed on the converted links,
  and the rows neither write a travel time nor change a link. The mode's speed is not
  zero and \<^verbatim>\<open>G.link_size\<close> is the number of links.
\<close>

theorem mode_transform_once_before_dispatch:
  assumes "output_type = ''.omx'' \<or> output_type = ''.csv''"
    and "link_size s = int (length (links s))"
    and "mode_ffs m \<noteq> 0"
    and "centroid_loop (nodes s) [0..<nat (node_size s)] = Inr row_nodes"
    and "s' = fst (find_shortest_path_network E s output_dir output_type ct m)"
  shows "\<exists>s1 rest.
           mode_transform m s = (s1, Inr ()) \<and>
           links s1 = map (mode_link m) (links s) \<and>
           trace s1 = trace s @ mode_writes m (links s) \<and>
           engine_calls (trace s1) = engine_calls (trace s) \<and>
           links (fst (create_numpy_matrix_parallel E s1 row_nodes ct)) = links s1 \<and>
           links s' = links s1 \<and>
           trace s' = trace s1 @ rest \<and> fftt_writes rest = []"
proof -
  let ?s1 = "s\<lparr>links := map (mode_link m) (links s), trace := trace s @ mode_writes m (links s)\<rparr>"
  have t: "mode_transform m s = (?s1, Inr ())"
    using mode_transform_spec [OF assms(2,3)] .
  have e: "engine_calls (mode_writes m (links s)) = []"
    by (simp add: mode_writes_def engine_calls_def)
  obtain s2 x where c: "create_numpy_matrix_parallel E ?s1 row_nodes ct = (s2, x)"
    by (cases "create_numpy_matrix_parallel E ?s1 row_nodes ct")
  from rows_loop_frame [of E ?s1 row_nodes row_nodes ct] c obtain rest where
    f: "links s2 = links ?s1" "trace s2 = trace ?s1 @ rest" "fftt_writes rest = []"
    by (auto simp: create_numpy_matrix_parallel_def)
  have "links s' = links ?s1 \<and> (\<exists>rest'. trace s' = trace ?s1 @ rest' \<and> fftt_writes rest' = [])"
  proof (cases x)
    case (Inl err)
    then show ?thesis
      using assms(1,4,5) t c f by (auto simp: find_shortest_path_network_def)
  next
    case (Inr M)
    then show ?thesis
      using assms(1,4,5) t c f by (auto simp: find_shortest_path_network_def)
  qed
  then show ?thesis using t e c f by auto
qed


theorem mode_transform_once_before_dispatch_witness:
  "link_size diamond = int (length (links diamond)) \<and>
   centroid_loop (nodes diamond) [0..<nat (node_size diamond)] = Inr [''1'', ''4''] \<and>
   map fftt (links (fst (find_shortest_path_network example_env diamond ''out'' ''.csv'' ''time''
                           \<lparr>mode_type = ''p'', mode_ffs = 88, mode_name = ''walk''\<rparr>))) =
     [10, 1, 10, 1] \<and>
   fftt_writes (trace (fst (find_shortest_path_network example_env diamond ''out'' ''.csv'' ''time''
                           \<lparr>mode_type = ''p'', mode_ffs = 88, mode_name = ''walk''\<rparr>))) =
     [(0, 10), (1, 1), (2, 10), (3, 1)] \<and>
   map fftt (links (fst (find_shortest_path_network example_env diamond ''out'' ''.omx'' ''time''
                           \<lparr>mode_type = ''t'', mode_ffs = 88, mode_name = ''bus''\<rparr>))) =
     [10, 4, 10, 1] \<and>
   fftt_writes (trace (fst (find_shortest_path_network example_env diamond ''out'' ''.omx'' ''time''
                           \<lparr>mode_type = ''t'', mode_ffs = 88, mode_name = ''bus''\<rparr>))) =
     [(0, 10), (2, 10)]"
proof -
  let ?walk = "\<lparr>mode_type = ''p'', mode_ffs = 88, mode_name = ''walk''\<rparr>"
  let ?bus = "\<lparr>mode_type = ''t'', mode_ffs = 88, mode_name = ''bus''\<rparr>"
  let ?W = "fst (find_shortest_path_network example_env diamond ''out'' ''.csv'' ''time'' ?walk)"
  let ?B = "fst (find_shortest_path_network example_env diamond ''out'' ''.omx'' ''time'' ?bus)"
  have u: "[0..<4] = [0, 1, 2, 3::nat]" by (simp add: upt_rec)
  have l: "link_size diamond = int (length (links diamond))" by (simp add: diamond_def)
  have c: "centroid_loop (nodes diamond) [0..<nat (node_size diamond)] = Inr [''1'', ''4'']"
    by (simp add: diamond_def u py_index_def py_isdigit_def py_strip_def py_isspace_def)
  have w: "map fftt (map (mode_link ?walk) (links diamond)) = [10, 1, 10, 1]"
    "fftt_writes (trace diamond) @ fftt_writes (mode_writes ?walk (links diamond)) @ [] =
       [(0, 10), (1, 1), (2, 10), (3, 1)]"
    by (simp_all add: diamond_def mode_link_def mode_selects_def mode_fftt_def mode_writes_def u)
  have b: "map fftt (map (mode_link ?bus) (links diamond)) = [10, 4, 10, 1]"
    "fftt_writes (trace diamond) @ fftt_writes (mode_writes ?bus (links diamond)) @ [] =
       [(0, 10), (2, 10)]"
    by (simp_all add: diamond_def mode_link_def mode_selects_def mode_fftt_def mode_writes_def u)
  have o1: "''.csv'' = ''.omx'' \<or> ''.csv'' = ''.csv''"
    and o2: "''.omx'' = ''.omx'' \<or> ''.omx'' = ''.csv''"
    by simp_all
  have f1: "mode_ffs ?walk \<noteq> 0" and f2: "mode_ffs ?bus \<noteq> 0" by simp_all
  from mode_transform_once_before_dispatch
    [OF o1 l f1 c refl, where E = example_env and output_dir = "''out''" and ct = "''time''"]
  obtain s1 :: state and rest where
    p1: "links s1 = map (mode_link ?walk) (links diamond)"
      "trace s1 = trace diamond @ mode_writes ?walk (links diamond)"
      "links ?W = links s1" "trace ?W = trace s1 @ rest" "fftt_writes rest = []"
    by blast
  from mode_transform_once_before_dispatch
    [OF o2 l f2 c refl, where E = example_env and output_dir = "''out''" and ct = "''time''"]
  obtain s2 :: state and rest2 where
    p2: "links s2 = map (mode_link ?bus) (links diamond)"
      "trace s2 = trace diamond @ mode_writes ?bus (links diamond)"
      "links ?B = links s2" "trace ?B = trace s2 @ rest2" "fftt_writes rest2 = []"
    by blast
  have r1: "map fftt (links ?W) = [10, 1, 10, 1]"
    by (simp only: p1 w)
  have r2: "fftt_writes (trace ?W) = [(0, 10), (1, 1), (2, 10), (3, 1)]"
    by (simp only: p1 fftt_writes_append append_assoc w)
  have r3: "map fftt (links ?B) = [10, 4, 10, 1]"
    by (simp only: p2 b)
  have r4: "fftt_writes (trace ?B) = [(0, 10), (2, 10)]"
    by (simp only: p2 fftt_writes_append append_assoc b)
  show ?thesis using l c r1 r2 r3 r4 by simp
qed







end
